theory Spec2Isabelle
  imports Complex_Main
begin

section \<open>Tensors, slices and Python exceptions\<close>

text \<open>
  The exceptions the modelled code can raise.  \<open>UnboundLocalError\<close> is what Python
  raises on reading a local variable that no executed statement has assigned.
\<close>

datatype error =
    AssertionError
  | UnboundLocalError
  | IndexError
  | RuntimeError
  | ZeroDivisionError
  | KeyError
  | FileNotFoundError
  | AttributeError
  | TypeError

text \<open>
  A float tensor of shape \<open>1 \<times> H \<times> W\<close> (the leading singleton channel axis of the anomaly
  maps is dropped): its two spatial sizes and its entries.  Entries are modelled as real
  numbers; only indices below \<open>height\<close> and \<open>width\<close> are meaningful.
\<close>

record tensor =
  height :: nat
  width :: nat
  entry :: "nat \<Rightarrow> nat \<Rightarrow> real"

definition full :: "nat \<Rightarrow> nat \<Rightarrow> real \<Rightarrow> tensor" where
  "full h w v = \<lparr>height = h, width = w, entry = (\<lambda>i j. v)\<rparr>"

text \<open>\<open>torch.zeros((1, h, w))\<close>\<close>

definition zeros :: "nat \<Rightarrow> nat \<Rightarrow> tensor" where
  "zeros h w = full h w 0"

text \<open>A tensor given by its rows, for concrete inputs.\<close>

definition of_rows :: "real list list \<Rightarrow> tensor" where
  "of_rows rows = \<lparr>height = length rows, width = (case rows of [] \<Rightarrow> 0 | r # _ \<Rightarrow> length r),
     entry = (\<lambda>i j. rows ! i ! j)\<rparr>"

text \<open>
  Python's normalisation of one bound of \<open>start:stop\<close> against an axis of length \<open>n\<close>:
  a negative bound counts from the end, and the result is clipped to \<open>0..n\<close>.
\<close>

definition slice_index :: "nat \<Rightarrow> int \<Rightarrow> nat" where
  "slice_index n i = (if i < 0 then nat (max 0 (i + int n)) else min (nat i) n)"

text \<open>
  One element of a batch: the index of the full image the patch was cut from, the four
  bounds \<open>slices["1_start"], slices["1_stop"], slices["2_start"], slices["2_stop"]\<close>, and
  the patch's row \<open>anomaly_maps_current_batch[batch_idx,:,:,:]\<close> of pixel-wise scores.
\<close>

record patch =
  image_idx :: int
  start1 :: int
  stop1 :: int
  start2 :: int
  stop2 :: int
  score :: tensor

text \<open>The pixels of a map \<open>t\<close> that \<open>t[current_slice]\<close> selects for patch \<open>p\<close>.\<close>

definition row_lo :: "tensor \<Rightarrow> patch \<Rightarrow> nat" where
  "row_lo t p = slice_index (height t) (start1 p)"

definition row_hi :: "tensor \<Rightarrow> patch \<Rightarrow> nat" where
  "row_hi t p = slice_index (height t) (stop1 p)"

definition col_lo :: "tensor \<Rightarrow> patch \<Rightarrow> nat" where
  "col_lo t p = slice_index (width t) (start2 p)"

definition col_hi :: "tensor \<Rightarrow> patch \<Rightarrow> nat" where
  "col_hi t p = slice_index (width t) (stop2 p)"

definition in_slice :: "tensor \<Rightarrow> patch \<Rightarrow> nat \<Rightarrow> nat \<Rightarrow> bool" where
  "in_slice t p i j =
     (row_lo t p \<le> i \<and> i < row_hi t p \<and> col_lo t p \<le> j \<and> j < col_hi t p)"

text \<open>
  Broadcasting of the patch scores against the selected region: every spatial size of the
  scores has to equal the region's size or be 1, otherwise torch raises a
  \<open>RuntimeError\<close>.
\<close>

definition broadcastable :: "tensor \<Rightarrow> patch \<Rightarrow> bool" where
  "broadcastable t p =
     ((height (score p) = row_hi t p - row_lo t p \<or> height (score p) = 1) \<and>
      (width (score p) = col_hi t p - col_lo t p \<or> width (score p) = 1))"

text \<open>The score that patch \<open>p\<close> contributes at pixel \<open>(i, j)\<close> of the full map \<open>t\<close>.\<close>

definition contribution :: "tensor \<Rightarrow> patch \<Rightarrow> nat \<Rightarrow> nat \<Rightarrow> real" where
  "contribution t p i j =
     entry (score p) (if height (score p) = 1 then 0 else i - row_lo t p)
                     (if width (score p) = 1 then 0 else j - col_lo t p)"

text \<open>\<open>t[current_slice] = f(t[current_slice])\<close>, with \<open>f\<close> given per pixel.\<close>

definition update_slice :: "tensor \<Rightarrow> patch \<Rightarrow> (nat \<Rightarrow> nat \<Rightarrow> real \<Rightarrow> real) \<Rightarrow> tensor" where
  "update_slice t p f =
     t\<lparr>entry := (\<lambda>i j. if in_slice t p i j then f i j (entry t i j) else entry t i j)\<rparr>"

section \<open>Accumulating patch scores into the anomaly map of one image\<close>

text \<open>
  The per-patch part of \<open>AnomalyDetectionExperiment.run_experiment\<close> (the statements
  after \<open>current_slice\<close> is built), on the pair \<open>(anomaly_map, normalisation_map)\<close>.
  The coverage count is incremented first and for every method; a method that is none of
  \<open>mean\<close>, \<open>min\<close>, \<open>max\<close> falls through the \<open>if/elif\<close> chain and leaves the scores as
  they are.
\<close>

definition update_maps ::
  "string \<Rightarrow> tensor \<times> tensor \<Rightarrow> patch \<Rightarrow> error + tensor \<times> tensor" where
  "update_maps window_aggregation_method maps p =
     (let anomaly_map = fst maps;
          normalisation_map = update_slice (snd maps) p (\<lambda>i j x. x + 1)
      in if window_aggregation_method = ''mean'' then
           (if broadcastable anomaly_map p
            then Inr (update_slice anomaly_map p (\<lambda>i j x. x + contribution anomaly_map p i j),
                      normalisation_map)
            else Inl RuntimeError)
         else if window_aggregation_method = ''min'' then
           (if broadcastable anomaly_map p
            then Inr (update_slice anomaly_map p
                        (\<lambda>i j x.
                           let first_time_pixels = (if entry normalisation_map i j = 1 then 1 else 0);
                               min_current_and_aggregated_map = min x (contribution anomaly_map p i j)
                           in first_time_pixels * contribution anomaly_map p i j
                              + (1 - first_time_pixels) * min_current_and_aggregated_map),
                      normalisation_map)
            else Inl RuntimeError)
         else if window_aggregation_method = ''max'' then
           (if broadcastable anomaly_map p
            then Inr (update_slice anomaly_map p (\<lambda>i j x. max x (contribution anomaly_map p i j)),
                      normalisation_map)
            else Inl RuntimeError)
         else Inr (anomaly_map, normalisation_map))"

text \<open>All patches of one image, in stream order; the first exception ends the run.\<close>

fun accumulate ::
  "string \<Rightarrow> tensor \<times> tensor \<Rightarrow> patch list \<Rightarrow> error + tensor \<times> tensor" where
  "accumulate m maps [] = Inr maps"
| "accumulate m maps (p # ps) =
     (case update_maps m maps p of
        Inl e \<Rightarrow> Inl e
      | Inr maps' \<Rightarrow> accumulate m maps' ps)"

text \<open>
  \<open>normalise_anomaly_map\<close>: zeros of the coverage map become 1, then the scores are
  divided elementwise.  Both maps are created together with the same shape and keep it.
\<close>

definition replace_zeros :: "tensor \<Rightarrow> tensor" where
  "replace_zeros normalisation_map =
     normalisation_map\<lparr>entry := (\<lambda>i j. if entry normalisation_map i j = 0 then 1
                                        else entry normalisation_map i j)\<rparr>"

definition normalise_anomaly_map :: "tensor \<Rightarrow> tensor \<Rightarrow> tensor" where
  "normalise_anomaly_map anomaly_map normalisation_map =
     anomaly_map\<lparr>entry := (\<lambda>i j. entry anomaly_map i j
                                 / entry (replace_zeros normalisation_map) i j)\<rparr>"

text \<open>
  The finished score map of an image of size \<open>h \<times> w\<close> whose patches are \<open>ps\<close>: fresh zero
  maps, every patch accumulated, and the normalisation that the method \<open>mean\<close> gets.
\<close>

definition aggregate :: "string \<Rightarrow> nat \<Rightarrow> nat \<Rightarrow> patch list \<Rightarrow> error + tensor" where
  "aggregate m h w ps =
     (case accumulate m (zeros h w, zeros h w) ps of
        Inl e \<Rightarrow> Inl e
      | Inr maps \<Rightarrow>
          Inr (if m = ''mean'' then normalise_anomaly_map (fst maps) (snd maps) else fst maps))"

text \<open>The patches of \<open>ps\<close> that cover pixel \<open>(i, j)\<close> of an \<open>h \<times> w\<close> image, and their scores there.\<close>

definition covering :: "nat \<Rightarrow> nat \<Rightarrow> patch list \<Rightarrow> nat \<Rightarrow> nat \<Rightarrow> patch list" where
  "covering h w ps i j = filter (\<lambda>p. in_slice (zeros h w) p i j) ps"

definition contributions :: "nat \<Rightarrow> nat \<Rightarrow> patch list \<Rightarrow> nat \<Rightarrow> nat \<Rightarrow> real list" where
  "contributions h w ps i j = map (\<lambda>p. contribution (zeros h w) p i j) (covering h w ps i j)"

section \<open>The anomaly-detection run: streaming over patches\<close>

text \<open>The options of \<open>args\<close> that \<open>AnomalyDetectionExperiment.__init__\<close> copies.\<close>

record ad_config =
  measure_of_anomaly :: string
  window_aggregation_method :: string
  save_anomaly_maps :: bool
  resize_anomaly_maps :: bool
  AD_margins :: "(int \<times> int) option"

text \<open>
  What \<open>run_experiment\<close> selects for one of the sets \<open>val\<close> and \<open>test\<close>: the name of the
  set, the batches of the data loader, the directory for the maps, and the dataset's image
  names, image sizes \<open>(C, H, W)\<close> and label images.
\<close>

record data_split =
  which_set :: string
  data_loader :: "patch list list"
  anomaly_map_dir :: string
  image_list :: "string list"
  image_sizes :: "(nat \<times> nat \<times> nat) list"
  get_label_image :: "int \<Rightarrow> tensor"

text \<open>
  Functions of the libraries the code calls: \<open>torch.nn.functional.interpolate\<close> with the
  target size, and \<open>sklearn.metrics.roc_auc_score\<close> on flattened labels and scores.
\<close>

record library =
  interpolate :: "tensor \<Rightarrow> nat \<Rightarrow> nat \<Rightarrow> tensor"
  roc_auc_score :: "real list \<Rightarrow> real list \<Rightarrow> real"

datatype continue_mode = IfExists | ContinueTrue

text \<open>The calls that leave the process, in the order they are made.\<close>

datatype event =
    TorchSave string tensor
  | GetAucroc tensor tensor
  | SaveStatistics string "real option list" int continue_mode
  | PbarUpdate
  | PrintMean string real

text \<open>
  The local variables of \<open>run_experiment\<close> that live across loop iterations, and the
  trace of the calls made so far.  A variable that no statement has assigned yet is
  \<open>None\<close>; the two maps are created together, so they are one optional pair.  In
  \<open>stats_dict\<close> (the list under the key \<open>aucroc\<close>) the value \<open>None\<close> is \<open>np.nan\<close>.
\<close>

record ad_state =
  num_finished_images :: int
  current_image_idx :: "int option"
  maps :: "(tensor \<times> tensor) option"
  stats_dict :: "real option list"
  trace :: "event list"

text \<open>Python's \<open>xs[i]\<close> on a list.\<close>

definition py_index :: "'a list \<Rightarrow> int \<Rightarrow> error + 'a" where
  "py_index xs i =
     (if 0 \<le> i \<and> i < int (length xs) then Inr (xs ! nat i)
      else if - int (length xs) \<le> i \<and> i < 0 then Inr (xs ! nat (i + int (length xs)))
      else Inl IndexError)"

text \<open>\<open>os.path.join\<close> of two components on a POSIX system.\<close>

definition path_join :: "string \<Rightarrow> string \<Rightarrow> string" where
  "path_join a b =
     (if b \<noteq> [] \<and> hd b = CHR ''/'' then b
      else if a = [] \<or> last a = CHR ''/'' then a @ b
      else a @ ''/'' @ b)"

text \<open>\<open>t[:, a1:b1, a2:b2]\<close>\<close>

definition getitem_slice :: "tensor \<Rightarrow> int \<Rightarrow> int \<Rightarrow> int \<Rightarrow> int \<Rightarrow> tensor" where
  "getitem_slice t a1 b1 a2 b2 =
     (let rlo = slice_index (height t) a1; rhi = slice_index (height t) b1;
          clo = slice_index (width t) a2; chi = slice_index (width t) b2
      in \<lparr>height = rhi - rlo, width = chi - clo, entry = (\<lambda>i j. entry t (rlo + i) (clo + j))\<rparr>)"

definition flatten :: "tensor \<Rightarrow> real list" where
  "flatten t = concat (map (\<lambda>i. map (entry t i) [0..<width t]) [0..<height t])"

text \<open>
  Modelled from the spec: \<open>misc_utils.get_aucroc\<close> is imported by the module but is not
  among the source files.  The specification says: if the flattened label contains only one
  class (all-0 or all-1), AUC is undefined and a sentinel "undefined" value is returned;
  otherwise the AUC-ROC of the scores against the labels is computed.
\<close>

definition get_aucroc :: "library \<Rightarrow> tensor \<Rightarrow> tensor \<Rightarrow> real option" where
  "get_aucroc lib label_image anomaly_map =
     (if list_all (\<lambda>y. y = 0) (flatten label_image) \<or> list_all (\<lambda>y. y = 1) (flatten label_image)
      then None
      else Some (roc_auc_score lib (flatten label_image) (flatten anomaly_map)))"

text \<open>
  \<open>calculate_anomaly_maps\<close>.  The tensor arithmetic on the network output is torch's; its
  result for the configured measure is the field \<open>score\<close> of each patch of the batch.  With
  any other measure no branch assigns \<open>anomaly_maps\<close> and the \<open>return\<close> raises.
\<close>

definition calculate_anomaly_maps :: "ad_config \<Rightarrow> patch list \<Rightarrow> error + patch list" where
  "calculate_anomaly_maps cfg batch =
     (if measure_of_anomaly cfg = ''absolute distance'' then Inr batch
      else if measure_of_anomaly cfg = ''likelihood'' then Inr batch
      else Inl UnboundLocalError)"

definition calculate_agreement_between_anomaly_score_and_labels ::
  "ad_config \<Rightarrow> library \<Rightarrow> ad_state \<Rightarrow> tensor \<Rightarrow> tensor \<Rightarrow> error + ad_state" where
  "calculate_agreement_between_anomaly_score_and_labels cfg lib st anomaly_map label_image =
     (if measure_of_anomaly cfg = ''absolute distance'' \<or> measure_of_anomaly cfg = ''likelihood''
      then Inr (st\<lparr>stats_dict := stats_dict st @ [get_aucroc lib label_image anomaly_map],
                   trace := trace st @ [GetAucroc label_image anomaly_map]\<rparr>)
      else Inl UnboundLocalError)"

text \<open>The margin crop: one slice, built from the shape of the score map, applied to both.\<close>

definition apply_margins :: "ad_config \<Rightarrow> tensor \<Rightarrow> tensor \<Rightarrow> tensor \<times> tensor" where
  "apply_margins cfg anomaly_map label_image =
     (case AD_margins cfg of
        None \<Rightarrow> (anomaly_map, label_image)
      | Some margins \<Rightarrow>
          (getitem_slice anomaly_map
             (fst margins) (int (height anomaly_map) - fst margins)
             (snd margins) (int (width anomaly_map) - snd margins),
           getitem_slice label_image
             (fst margins) (int (height anomaly_map) - fst margins)
             (snd margins) (int (width anomaly_map) - snd margins)))"

text \<open>
  The block under \<open>if num_finished_images > 0\<close>: the image before \<open>cur\<close> is finished.
  \<open>normalise_anomaly_map\<close> also overwrites the zeros of the coverage map in place.
\<close>

definition finalise_previous_image ::
  "ad_config \<Rightarrow> library \<Rightarrow> data_split \<Rightarrow> ad_state \<Rightarrow> int \<Rightarrow> error + ad_state" where
  "finalise_previous_image cfg lib ds st cur =
     (case maps st of
        None \<Rightarrow> Inl UnboundLocalError
      | Some accumulated \<Rightarrow>
          let normalisation_map =
                (if window_aggregation_method cfg = ''mean'' then replace_zeros (snd accumulated)
                 else snd accumulated);
              normalised =
                (if window_aggregation_method cfg = ''mean''
                 then normalise_anomaly_map (fst accumulated) (snd accumulated)
                 else fst accumulated);
              label_image = get_label_image ds (cur - 1);
              resized =
                (if resize_anomaly_maps cfg
                 then interpolate lib normalised (height label_image) (width label_image)
                 else normalised)
          in case (if save_anomaly_maps cfg
                   then (case py_index (image_list ds) (cur - 1) of
                           Inl e \<Rightarrow> Inl e
                         | Inr name \<Rightarrow> Inr [TorchSave (path_join (anomaly_map_dir ds) name) resized])
                   else Inr []) of
               Inl e \<Rightarrow> Inl e
             | Inr saved \<Rightarrow>
                 (case calculate_agreement_between_anomaly_score_and_labels cfg lib
                         (st\<lparr>maps := Some (fst (apply_margins cfg resized label_image), normalisation_map),
                             trace := trace st @ saved\<rparr>)
                         (fst (apply_margins cfg resized label_image))
                         (snd (apply_margins cfg resized label_image)) of
                    Inl e \<Rightarrow> Inl e
                  | Inr st' \<Rightarrow>
                      Inr (st'\<lparr>trace := trace st' @
                             [SaveStatistics (which_set ds @ ''_summary.csv'') (stats_dict st')
                                (cur - 1) IfExists,
                              PbarUpdate]\<rparr>)))"

text \<open>
  The block after the loop over the batches, for the last image.  It reads
  \<open>current_image_idx\<close> and the maps, which only a processed patch assigns.
\<close>

definition finalise_last_image ::
  "ad_config \<Rightarrow> library \<Rightarrow> data_split \<Rightarrow> ad_state \<Rightarrow> error + ad_state" where
  "finalise_last_image cfg lib ds st =
     (case maps st of
        None \<Rightarrow> Inl UnboundLocalError
      | Some accumulated \<Rightarrow>
         (case current_image_idx st of
            None \<Rightarrow> Inl UnboundLocalError
          | Some cur \<Rightarrow>
              let normalisation_map =
                    (if window_aggregation_method cfg = ''mean'' then replace_zeros (snd accumulated)
                     else snd accumulated);
                  normalised =
                    (if window_aggregation_method cfg = ''mean''
                     then normalise_anomaly_map (fst accumulated) (snd accumulated)
                     else fst accumulated);
                  label_image = get_label_image ds cur;
                  resized =
                    (if resize_anomaly_maps cfg
                     then interpolate lib normalised (height label_image) (width label_image)
                     else normalised)
              in case (if save_anomaly_maps cfg
                       then (case py_index (image_list ds) cur of
                               Inl e \<Rightarrow> Inl e
                             | Inr name \<Rightarrow> Inr [TorchSave (path_join (anomaly_map_dir ds) name) resized])
                       else Inr []) of
                   Inl e \<Rightarrow> Inl e
                 | Inr saved \<Rightarrow>
                     (case calculate_agreement_between_anomaly_score_and_labels cfg lib
                             (st\<lparr>maps := Some (fst (apply_margins cfg resized label_image), normalisation_map),
                                 trace := trace st @ saved\<rparr>)
                             (fst (apply_margins cfg resized label_image))
                             (snd (apply_margins cfg resized label_image)) of
                        Inl e \<Rightarrow> Inl e
                      | Inr st' \<Rightarrow>
                          Inr (st'\<lparr>trace := trace st' @
                                 [PbarUpdate,
                                  SaveStatistics (which_set ds @ ''_summary.csv'') (stats_dict st')
                                    cur ContinueTrue]\<rparr>))))"

text \<open>
  The block under \<open>if current_image_idx > num_finished_images\<close>: the counter ticks up by
  one, the previous image is finished unless this is the first one, and fresh zero maps of
  the size of image \<open>cur\<close> are created.
\<close>

definition start_next_image ::
  "ad_config \<Rightarrow> library \<Rightarrow> data_split \<Rightarrow> ad_state \<Rightarrow> int \<Rightarrow> error + ad_state" where
  "start_next_image cfg lib ds st cur =
     (case (if num_finished_images st + 1 > 0
            then finalise_previous_image cfg lib ds
                   (st\<lparr>num_finished_images := num_finished_images st + 1\<rparr>) cur
            else Inr (st\<lparr>num_finished_images := num_finished_images st + 1\<rparr>)) of
        Inl e \<Rightarrow> Inl e
      | Inr st' \<Rightarrow>
          (case py_index (image_sizes ds) cur of
             Inl e \<Rightarrow> Inl e
           | Inr image_size \<Rightarrow>
               Inr (st'\<lparr>maps := Some (zeros (fst (snd image_size)) (snd (snd image_size)),
                                       zeros (fst (snd image_size)) (snd (snd image_size)))\<rparr>)))"

text \<open>The body of the loop over \<open>batch_idx\<close>, for one patch.\<close>

definition process_patch ::
  "ad_config \<Rightarrow> library \<Rightarrow> data_split \<Rightarrow> ad_state \<Rightarrow> patch \<Rightarrow> error + ad_state" where
  "process_patch cfg lib ds st p =
     (if \<not> num_finished_images st \<le> image_idx p then Inl AssertionError
      else
        case (if image_idx p > num_finished_images st
              then start_next_image cfg lib ds (st\<lparr>current_image_idx := Some (image_idx p)\<rparr>)
                     (image_idx p)
              else Inr (st\<lparr>current_image_idx := Some (image_idx p)\<rparr>)) of
          Inl e \<Rightarrow> Inl e
        | Inr st' \<Rightarrow>
            (case maps st' of
               None \<Rightarrow> Inl UnboundLocalError
             | Some accumulated \<Rightarrow>
                 (case update_maps (window_aggregation_method cfg) accumulated p of
                    Inl e \<Rightarrow> Inl e
                  | Inr accumulated' \<Rightarrow> Inr (st'\<lparr>maps := Some accumulated'\<rparr>))))"

fun process_patches ::
  "ad_config \<Rightarrow> library \<Rightarrow> data_split \<Rightarrow> ad_state \<Rightarrow> patch list \<Rightarrow> error + ad_state" where
  "process_patches cfg lib ds st [] = Inr st"
| "process_patches cfg lib ds st (p # ps) =
     (case process_patch cfg lib ds st p of
        Inl e \<Rightarrow> Inl e
      | Inr st' \<Rightarrow> process_patches cfg lib ds st' ps)"

text \<open>The loop over the batches of the data loader.\<close>

fun process_batches ::
  "ad_config \<Rightarrow> library \<Rightarrow> data_split \<Rightarrow> ad_state \<Rightarrow> patch list list \<Rightarrow> error + ad_state" where
  "process_batches cfg lib ds st [] = Inr st"
| "process_batches cfg lib ds st (b # bs) =
     (case calculate_anomaly_maps cfg b of
        Inl e \<Rightarrow> Inl e
      | Inr anomaly_maps_current_batch \<Rightarrow>
          (case process_patches cfg lib ds st anomaly_maps_current_batch of
             Inl e \<Rightarrow> Inl e
           | Inr st' \<Rightarrow> process_batches cfg lib ds st' bs))"

text \<open>The mean over the values that are not \<open>nan\<close>, printed at the end of a set.\<close>

definition print_mean_results :: "ad_state \<Rightarrow> error + ad_state" where
  "print_mean_results st =
     (let list_of_non_nan_values = List.map_filter (\<lambda>x. x) (stats_dict st)
      in if length list_of_non_nan_values = 0 then Inl ZeroDivisionError
         else Inr (st\<lparr>trace := trace st @
                 [PrintMean ''aucroc''
                    (sum_list list_of_non_nan_values / real (length list_of_non_nan_values))]\<rparr>))"

text \<open>One iteration of \<open>for which_set in ["val", "test"]\<close> past the early \<open>return\<close>.\<close>

definition run_set :: "ad_config \<Rightarrow> library \<Rightarrow> ad_state \<Rightarrow> data_split \<Rightarrow> error + ad_state" where
  "run_set cfg lib st ds =
     (case process_batches cfg lib ds st (data_loader ds) of
        Inl e \<Rightarrow> Inl e
      | Inr st' \<Rightarrow>
          (case finalise_last_image cfg lib ds st' of
             Inl e \<Rightarrow> Inl e
           | Inr st'' \<Rightarrow> print_mean_results st''))"

fun run_sets :: "ad_config \<Rightarrow> library \<Rightarrow> ad_state \<Rightarrow> data_split list \<Rightarrow> error + ad_state" where
  "run_sets cfg lib st [] = Inr st"
| "run_sets cfg lib st (ds # rest) =
     (if length (image_list ds) = 0
      then Inr (st\<lparr>num_finished_images := - 1, stats_dict := []\<rparr>)
      else case run_set cfg lib (st\<lparr>num_finished_images := - 1, stats_dict := []\<rparr>) ds of
             Inl e \<Rightarrow> Inl e
           | Inr st' \<Rightarrow> run_sets cfg lib st' rest)"

definition initial_state :: ad_state where
  "initial_state = \<lparr>num_finished_images = - 1, current_image_idx = None, maps = None,
     stats_dict = [], trace = []\<rparr>"

definition run_experiment ::
  "ad_config \<Rightarrow> library \<Rightarrow> data_split \<Rightarrow> data_split \<Rightarrow> error + ad_state" where
  "run_experiment cfg lib val test = run_sets cfg lib initial_state [val, test]"

section \<open>Checkpoints of the training experiment\<close>

text \<open>
  The values a checkpoint dictionary holds.  \<open>'p\<close> is the type of the parameter values of
  the network at hand, that is of \<open>self.state_dict()\<close>.
\<close>

datatype 'p pyvalue = IntV int | FloatV real | StateDictV 'p

type_synonym 'p checkpoint = "string \<rightharpoonup> 'p pyvalue"

text \<open>The files written by \<open>torch.save\<close>, by path.\<close>

type_synonym 'p file_store = "string \<rightharpoonup> 'p checkpoint"

text \<open>\<open>model_idx\<close> is an epoch index or the string \<open>latest\<close>; \<open>str\<close> prints it.\<close>

datatype model_index = Epoch int | Latest

fun str_nat :: "nat \<Rightarrow> string" where
  "str_nat n =
     (if n < 10 then [char_of (48 + n)]
      else str_nat (n div 10) @ [char_of (48 + n mod 10)])"

declare str_nat.simps [simp del]

definition str_int :: "int \<Rightarrow> string" where
  "str_int i = (if i < 0 then CHR ''-'' # str_nat (nat (- i)) else str_nat (nat i))"

fun str_model_index :: "model_index \<Rightarrow> string" where
  "str_model_index (Epoch i) = str_int i"
| "str_model_index Latest = ''latest''"

text \<open>\<open>os.path.join(model_save_dir, "{}_{}".format(model_save_name, str(model_idx)))\<close>\<close>

definition checkpoint_path :: "string \<Rightarrow> string \<Rightarrow> model_index \<Rightarrow> string" where
  "checkpoint_path model_save_dir model_save_name model_idx =
     path_join model_save_dir (model_save_name @ ''_'' @ str_model_index model_idx)"

text \<open>
  The attributes of an \<open>ExperimentBuilder\<close> that the modelled methods read or write.
  \<open>best_val_model_measure\<close> is \<open>None\<close> while no statement has assigned the attribute.
\<close>

record 'p builder =
  task :: string
  loss :: string
  network :: 'p
  best_val_model_idx :: "'p pyvalue"
  best_val_model_measure :: "'p pyvalue option"
  starting_epoch :: "'p pyvalue"
  state :: "'p checkpoint"
  experiment_saved_models :: string
  num_epochs :: int

text \<open>
  \<open>save_model\<close>: the dictionary \<open>state\<close> gets the key \<open>network\<close> (in place) and is written
  to the file.  The result is the updated dictionary and the updated files.
\<close>

definition save_model ::
  "'p builder \<Rightarrow> 'p file_store \<Rightarrow> string \<Rightarrow> string \<Rightarrow> model_index \<Rightarrow> 'p checkpoint
     \<Rightarrow> 'p checkpoint \<times> 'p file_store" where
  "save_model b fs model_save_dir model_save_name model_idx st =
     (st(''network'' \<mapsto> StateDictV (network b)),
      fs(checkpoint_path model_save_dir model_save_name model_idx \<mapsto>
           st(''network'' \<mapsto> StateDictV (network b))))"

text \<open>
  \<open>load_model\<close>: reads the file, loads the parameters into the module, then looks up the
  two scalars.  An exception leaves the module as far as it got, which the \<open>try\<close> of
  \<open>__init__\<close> can observe.
\<close>

definition load_model ::
  "'p builder \<Rightarrow> 'p file_store \<Rightarrow> string \<Rightarrow> string \<Rightarrow> model_index
     \<Rightarrow> error \<times> 'p builder + 'p builder \<times> 'p pyvalue \<times> 'p pyvalue \<times> 'p checkpoint" where
  "load_model b fs model_save_dir model_save_name model_idx =
     (case fs (checkpoint_path model_save_dir model_save_name model_idx) of
        None \<Rightarrow> Inl (FileNotFoundError, b)
      | Some st \<Rightarrow>
          (case st ''network'' of
             None \<Rightarrow> Inl (KeyError, b)
           | Some (IntV _) \<Rightarrow> Inl (TypeError, b)
           | Some (FloatV _) \<Rightarrow> Inl (TypeError, b)
           | Some (StateDictV ps) \<Rightarrow>
               (case st ''best_val_model_idx'' of
                  None \<Rightarrow> Inl (KeyError, b\<lparr>network := ps\<rparr>)
                | Some idx \<Rightarrow>
                    (case st ''best_val_model_measure'' of
                       None \<Rightarrow> Inl (KeyError, b\<lparr>network := ps\<rparr>)
                     | Some best_measure \<Rightarrow> Inr (b\<lparr>network := ps\<rparr>, idx, best_measure, st)))))"

text \<open>
  The end of an epoch in \<open>ExperimentBuilder.run_experiment\<close>: the three scalars are written
  into \<open>self.state\<close>, which is saved under the epoch index and under \<open>latest\<close>.
\<close>

definition save_epoch ::
  "'p builder \<Rightarrow> 'p file_store \<Rightarrow> int \<Rightarrow> error + 'p builder \<times> 'p file_store" where
  "save_epoch b fs epoch_idx =
     (case best_val_model_measure b of
        None \<Rightarrow> Inl AttributeError
      | Some best_measure \<Rightarrow>
          let st = (state b)(''current_epoch_idx'' \<mapsto> IntV epoch_idx,
                             ''best_val_model_measure'' \<mapsto> best_measure,
                             ''best_val_model_idx'' \<mapsto> best_val_model_idx b);
              saved_epoch = save_model b fs (experiment_saved_models b) ''train_model''
                              (Epoch epoch_idx) st;
              saved_latest = save_model b (snd saved_epoch) (experiment_saved_models b)
                               ''train_model'' Latest (fst saved_epoch)
          in Inr (b\<lparr>state := fst saved_latest\<rparr>, snd saved_latest))"

text \<open>
  The options of \<open>args\<close> that \<open>ExperimentBuilder.__init__\<close> reads, and the constructor.
  The paths are taken relative to the working directory.  With \<open>continue_from_epoch = -2\<close>
  a failed load is caught and the run starts from scratch; with any other value than
  \<open>-1\<close> a failed load is raised.
\<close>

record experiment_args =
  experiment_name :: string
  args_task :: string
  args_loss :: string
  args_num_epochs :: int
  continue_from_epoch :: int

definition fresh_builder :: "'p \<Rightarrow> experiment_args \<Rightarrow> 'p builder" where
  "fresh_builder network_model args =
     \<lparr>task = args_task args, loss = args_loss args, network = network_model,
      best_val_model_idx = IntV 0,
      best_val_model_measure =
        (if args_task args = ''classification'' then Some (IntV 1000000000)
         else if args_task args = ''regression'' then Some (IntV 1000000000)
         else None),
      starting_epoch = IntV 0, state = Map.empty,
      experiment_saved_models =
        path_join (path_join ''results'' (experiment_name args)) ''saved_models'',
      num_epochs = args_num_epochs args\<rparr>"




section \<open>Observations on a run\<close>


text \<open>
  What a trace shows: the image indices of the statistics rows written, the tensors saved,
  and the score maps handed to the agreement computation.
\<close>

fun finalised_indices :: "event list \<Rightarrow> int list" where
  "finalised_indices [] = []"
| "finalised_indices (SaveStatistics name stats idx mode # evs) = idx # finalised_indices evs"
| "finalised_indices (ev # evs) = finalised_indices evs"

fun saved_tensors :: "event list \<Rightarrow> tensor list" where
  "saved_tensors [] = []"
| "saved_tensors (TorchSave path t # evs) = t # saved_tensors evs"
| "saved_tensors (ev # evs) = saved_tensors evs"

fun evaluated_maps :: "event list \<Rightarrow> tensor list" where
  "evaluated_maps [] = []"
| "evaluated_maps (GetAucroc label_image anomaly_map # evs) = anomaly_map # evaluated_maps evs"
| "evaluated_maps (ev # evs) = evaluated_maps evs"

text \<open>
  The score map of an image after the normalisation of the method \<open>mean\<close> and the resize,
  as both finalisation blocks compute it.
\<close>

definition finished_map :: "ad_config \<Rightarrow> library \<Rightarrow> tensor \<times> tensor \<Rightarrow> tensor \<Rightarrow> tensor" where
  "finished_map cfg lib acc label_image =
     (if resize_anomaly_maps cfg
      then interpolate lib
             (if window_aggregation_method cfg = ''mean''
              then normalise_anomaly_map (fst acc) (snd acc) else fst acc)
             (height label_image) (width label_image)
      else (if window_aggregation_method cfg = ''mean''
            then normalise_anomaly_map (fst acc) (snd acc) else fst acc))"

definition supported_measure :: "ad_config \<Rightarrow> bool" where
  "supported_measure cfg =
     (measure_of_anomaly cfg = ''absolute distance'' \<or> measure_of_anomaly cfg = ''likelihood'')"

text \<open>The score map and the label image after the margin crop, as handed to the agreement.\<close>

definition cropped_map :: "ad_config \<Rightarrow> library \<Rightarrow> tensor \<times> tensor \<Rightarrow> tensor \<Rightarrow> tensor" where
  "cropped_map cfg lib acc label_image =
     fst (apply_margins cfg (finished_map cfg lib acc label_image) label_image)"

definition cropped_label :: "ad_config \<Rightarrow> library \<Rightarrow> tensor \<times> tensor \<Rightarrow> tensor \<Rightarrow> tensor" where
  "cropped_label cfg lib acc label_image =
     snd (apply_margins cfg (finished_map cfg lib acc label_image) label_image)"

section \<open>Example inputs\<close>

text \<open>A patch of image \<open>idx\<close> at \<open>[r0:r1, c0:c1]\<close> whose score is the constant \<open>v\<close>.\<close>

definition constant_patch :: "int \<Rightarrow> int \<Rightarrow> int \<Rightarrow> int \<Rightarrow> int \<Rightarrow> real \<Rightarrow> patch" where
  "constant_patch idx r0 r1 c0 c1 v =
     \<lparr>image_idx = idx, start1 = r0, stop1 = r1, start2 = c0, stop2 = c1,
      score = full (nat (r1 - r0)) (nat (c1 - c0)) v\<rparr>"

text \<open>
  Stand-ins for the two library functions: a nearest-neighbour resize, and a score function
  that is constant.
\<close>

definition nearest_resize :: "tensor \<Rightarrow> nat \<Rightarrow> nat \<Rightarrow> tensor" where
  "nearest_resize t h w =
     \<lparr>height = h, width = w, entry = (\<lambda>i j. entry t (i * height t div h) (j * width t div w))\<rparr>"

definition constant_auc :: "real list \<Rightarrow> real list \<Rightarrow> real" where
  "constant_auc y_true y_score = 1 / 2"

definition example_library :: library where
  "example_library = \<lparr>interpolate = nearest_resize, roc_auc_score = constant_auc\<rparr>"

text \<open>A configuration that saves the maps and crops a margin of one pixel on each side.\<close>

definition example_config :: ad_config where
  "example_config = \<lparr>measure_of_anomaly = ''absolute distance'', window_aggregation_method = ''mean'',
     save_anomaly_maps = True, resize_anomaly_maps = False, AD_margins = Some (1, 1)\<rparr>"

text \<open>A builder in its fourth epoch, with best epoch 2 and best measure 0.42.\<close>

definition example_args :: experiment_args where
  "example_args = \<lparr>experiment_name = ''exp'', args_task = ''regression'', args_loss = ''L2'',
     args_num_epochs = 5, continue_from_epoch = - 1\<rparr>"

definition example_builder :: "nat builder" where
  "example_builder = (fresh_builder 7 example_args)
     \<lparr>best_val_model_idx := IntV 2, best_val_model_measure := Some (FloatV (42 / 100))\<rparr>"

text \<open>Two images of size 4 by 4 in three patches and two batches, with a two-class label.\<close>

definition example_label :: "int \<Rightarrow> tensor" where
  "example_label idx = of_rows [[0, 0, 0, 0], [0, 1, 0, 0], [0, 0, 1, 0], [0, 0, 0, 0]]"

definition example_split :: data_split where
  "example_split =
     \<lparr>which_set = ''val'',
      data_loader = [[constant_patch 0 0 4 0 4 1, constant_patch 1 0 2 0 4 2],
                     [constant_patch 1 2 4 0 4 3]],
      anomaly_map_dir = ''maps/val'',
      image_list = [''a.png'', ''b.png''],
      image_sizes = [(1, 4, 4), (1, 4, 4)],
      get_label_image = example_label\<rparr>"


text \<open>The state after the loop over the batches of the example, and its maps.\<close>

definition example_state :: ad_state where
  "example_state =
     projr (process_batches example_config example_library example_split initial_state
              (data_loader example_split))"

definition example_maps :: "tensor \<times> tensor" where
  "example_maps = the (maps example_state)"

text \<open>A configuration whose aggregation method is none of \<open>mean\<close>, \<open>min\<close>, \<open>max\<close>.\<close>

definition median_config :: ad_config where
  "median_config = \<lparr>measure_of_anomaly = ''absolute distance'',
     window_aggregation_method = ''median'',
     save_anomaly_maps = False, resize_anomaly_maps = False, AD_margins = None\<rparr>"


section \<open>Pixel-wise facts about the accumulation\<close>

lemma in_slice_dims:
  "height t = h \<Longrightarrow> width t = w \<Longrightarrow> in_slice t p i j = in_slice (zeros h w) p i j"
  by (simp add: in_slice_def row_lo_def row_hi_def col_lo_def col_hi_def zeros_def full_def)

lemma contribution_dims:
  "height t = h \<Longrightarrow> width t = w \<Longrightarrow> contribution t p i j = contribution (zeros h w) p i j"
  by (simp add: contribution_def row_lo_def col_lo_def zeros_def full_def)

lemma update_slice_dims [simp]:
  "height (update_slice t p f) = height t" "width (update_slice t p f) = width t"
  by (simp_all add: update_slice_def)

lemma entry_update_slice:
  "entry (update_slice t p f) i j = (if in_slice t p i j then f i j (entry t i j) else entry t i j)"
  by (simp add: update_slice_def)

lemma update_maps_dims:
  assumes "update_maps m acc p = Inr acc'"
  shows "height (fst acc') = height (fst acc) \<and> width (fst acc') = width (fst acc) \<and>
         height (snd acc') = height (snd acc) \<and> width (snd acc') = width (snd acc)"
  using assms by (auto simp: update_maps_def Let_def split: if_splits)

lemma update_maps_coverage:
  assumes "update_maps m acc p = Inr acc'"
  shows "entry (snd acc') i j =
           (if in_slice (snd acc) p i j then entry (snd acc) i j + 1 else entry (snd acc) i j)"
  using assms by (auto simp: update_maps_def Let_def entry_update_slice split: if_splits)

lemma update_maps_mean:
  assumes "update_maps ''mean'' acc p = Inr acc'"
  shows "entry (fst acc') i j =
           (if in_slice (fst acc) p i j then entry (fst acc) i j + contribution (fst acc) p i j
            else entry (fst acc) i j)"
  using assms by (auto simp: update_maps_def Let_def entry_update_slice split: if_splits)

lemma update_maps_max:
  assumes "update_maps ''max'' acc p = Inr acc'"
  shows "entry (fst acc') i j =
           (if in_slice (fst acc) p i j then max (entry (fst acc) i j) (contribution (fst acc) p i j)
            else entry (fst acc) i j)"
  using assms by (auto simp: update_maps_def Let_def entry_update_slice split: if_splits)

lemma update_maps_min:
  assumes "update_maps ''min'' acc p = Inr acc'"
  shows "entry (fst acc') i j =
           (if in_slice (fst acc) p i j
            then (if in_slice (snd acc) p i j \<and> entry (snd acc) i j = 0
                  then contribution (fst acc) p i j
                  else if \<not> in_slice (snd acc) p i j \<and> entry (snd acc) i j = 1
                  then contribution (fst acc) p i j
                  else min (entry (fst acc) i j) (contribution (fst acc) p i j))
            else entry (fst acc) i j)"
  using assms by (auto simp: update_maps_def Let_def entry_update_slice split: if_splits)

lemma accumulate_snoc:
  "accumulate m acc (ps @ [p]) =
     (case accumulate m acc ps of Inl e \<Rightarrow> Inl e | Inr acc' \<Rightarrow> update_maps m acc' p)"
  by (induction ps arbitrary: acc) (auto split: sum.splits)

lemma covering_snoc:
  "covering h w (ps @ [p]) i j =
     covering h w ps i j @ (if in_slice (zeros h w) p i j then [p] else [])"
  by (simp add: covering_def)

lemma contributions_snoc:
  "contributions h w (ps @ [p]) i j =
     contributions h w ps i j @ (if in_slice (zeros h w) p i j then [contribution (zeros h w) p i j] else [])"
  by (simp add: contributions_def covering_snoc)

lemma accumulate_dims:
  "accumulate m (zeros h w, zeros h w) ps = Inr acc \<Longrightarrow>
     height (fst acc) = h \<and> width (fst acc) = w \<and> height (snd acc) = h \<and> width (snd acc) = w"
proof (induction ps arbitrary: acc rule: rev_induct)
  case Nil
  then show ?case by (auto simp: zeros_def full_def)
next
  case (snoc p ps)
  then obtain mid where mid: "accumulate m (zeros h w, zeros h w) ps = Inr mid"
    and step: "update_maps m mid p = Inr acc"
    by (auto simp: accumulate_snoc split: sum.splits)
  from snoc.IH [OF mid] update_maps_dims [OF step] show ?case by simp
qed

lemma accumulate_coverage:
  "accumulate m (zeros h w, zeros h w) ps = Inr acc \<Longrightarrow>
     entry (snd acc) i j = real (length (covering h w ps i j))"
proof (induction ps arbitrary: acc rule: rev_induct)
  case Nil
  then show ?case by (auto simp: zeros_def full_def covering_def)
next
  case (snoc p ps)
  then obtain mid where mid: "accumulate m (zeros h w, zeros h w) ps = Inr mid"
    and step: "update_maps m mid p = Inr acc"
    by (auto simp: accumulate_snoc split: sum.splits)
  have dims: "height (snd mid) = h" "width (snd mid) = w"
    using accumulate_dims [OF mid] by simp_all
  show ?case
    using snoc.IH [OF mid] update_maps_coverage [OF step, of i j]
    by (simp add: covering_snoc in_slice_dims [OF dims])
qed

lemma accumulate_mean:
  "accumulate ''mean'' (zeros h w, zeros h w) ps = Inr acc \<Longrightarrow>
     entry (fst acc) i j = sum_list (contributions h w ps i j)"
proof (induction ps arbitrary: acc rule: rev_induct)
  case Nil
  then show ?case by (auto simp: zeros_def full_def contributions_def covering_def)
next
  case (snoc p ps)
  then obtain mid where mid: "accumulate ''mean'' (zeros h w, zeros h w) ps = Inr mid"
    and step: "update_maps ''mean'' mid p = Inr acc"
    by (auto simp: accumulate_snoc split: sum.splits)
  have dims: "height (fst mid) = h" "width (fst mid) = w"
    using accumulate_dims [OF mid] by simp_all
  show ?case
    using snoc.IH [OF mid] update_maps_mean [OF step, of i j]
    by (simp add: contributions_snoc in_slice_dims [OF dims] contribution_dims [OF dims])
qed

lemma accumulate_max:
  "accumulate ''max'' (zeros h w, zeros h w) ps = Inr acc \<Longrightarrow>
     entry (fst acc) i j = Max (insert 0 (set (contributions h w ps i j)))"
proof (induction ps arbitrary: acc rule: rev_induct)
  case Nil
  then show ?case by (auto simp: zeros_def full_def contributions_def covering_def)
next
  case (snoc p ps)
  then obtain mid where mid: "accumulate ''max'' (zeros h w, zeros h w) ps = Inr mid"
    and step: "update_maps ''max'' mid p = Inr acc"
    by (auto simp: accumulate_snoc split: sum.splits)
  have dims: "height (fst mid) = h" "width (fst mid) = w"
    using accumulate_dims [OF mid] by simp_all
  have fin: "finite (insert 0 (set (contributions h w ps i j)))" by simp
  show ?case
  proof (cases "in_slice (zeros h w) p i j")
    case True
    have "entry (fst acc) i j =
            max (Max (insert 0 (set (contributions h w ps i j)))) (contribution (zeros h w) p i j)"
      using snoc.IH [OF mid] update_maps_max [OF step, of i j] True
      by (simp add: in_slice_dims [OF dims] contribution_dims [OF dims])
    also have "\<dots> = Max (insert (contribution (zeros h w) p i j) (insert 0 (set (contributions h w ps i j))))"
      using Max_insert [OF fin, of "contribution (zeros h w) p i j"] by (simp add: max.commute)
    finally show ?thesis using True by (simp add: contributions_snoc insert_commute)
  next
    case False
    then show ?thesis
      using snoc.IH [OF mid] update_maps_max [OF step, of i j]
      by (simp add: contributions_snoc in_slice_dims [OF dims])
  qed
qed

lemma accumulate_min:
  "accumulate ''min'' (zeros h w, zeros h w) ps = Inr acc \<Longrightarrow>
     entry (fst acc) i j =
       (if contributions h w ps i j = [] then 0 else Min (set (contributions h w ps i j)))"
proof (induction ps arbitrary: acc rule: rev_induct)
  case Nil
  then show ?case by (auto simp: zeros_def full_def contributions_def covering_def)
next
  case (snoc p ps)
  then obtain mid where mid: "accumulate ''min'' (zeros h w, zeros h w) ps = Inr mid"
    and step: "update_maps ''min'' mid p = Inr acc"
    by (auto simp: accumulate_snoc split: sum.splits)
  have dims: "height (fst mid) = h" "width (fst mid) = w"
    and dims': "height (snd mid) = h" "width (snd mid) = w"
    using accumulate_dims [OF mid] by simp_all
  have cov: "entry (snd mid) i j = real (length (covering h w ps i j))"
    by (rule accumulate_coverage [OF mid])
  have empty_iff: "contributions h w ps i j = [] \<longleftrightarrow> entry (snd mid) i j = 0"
    by (simp add: cov contributions_def)
  show ?case
  proof (cases "in_slice (zeros h w) p i j")
    case True
    let ?c = "contribution (zeros h w) p i j"
    show ?thesis
    proof (cases "contributions h w ps i j = []")
      case True2: True
      then show ?thesis
        using update_maps_min [OF step, of i j] True empty_iff
        by (simp add: contributions_snoc in_slice_dims [OF dims] in_slice_dims [OF dims']
            contribution_dims [OF dims])
    next
      case False
      then have ne: "set (contributions h w ps i j) \<noteq> {}" by simp
      have "entry (fst acc) i j = min (Min (set (contributions h w ps i j))) ?c"
        using update_maps_min [OF step, of i j] True empty_iff False snoc.IH [OF mid]
        by (simp add: in_slice_dims [OF dims] in_slice_dims [OF dims'] contribution_dims [OF dims])
      also have "\<dots> = Min (insert ?c (set (contributions h w ps i j)))"
        using Min_insert [OF _ ne, of ?c] by (simp add: min.commute)
      finally show ?thesis using True by (simp add: contributions_snoc)
    qed
  next
    case False
    then show ?thesis
      using snoc.IH [OF mid] update_maps_min [OF step, of i j]
      by (simp add: contributions_snoc in_slice_dims [OF dims])
  qed
qed


lemma aggregate_eq:
  "accumulate m (zeros h w, zeros h w) ps = Inr acc \<Longrightarrow>
   aggregate m h w ps =
     Inr (if m = ''mean'' then normalise_anomaly_map (fst acc) (snd acc) else fst acc)"
  by (simp add: aggregate_def)

lemma entry_normalise:
  "entry (normalise_anomaly_map a n) i j = entry a i j / (if entry n i j = 0 then 1 else entry n i j)"
  by (simp add: normalise_anomaly_map_def replace_zeros_def)

lemmas eval_defs = aggregate_def update_maps_def broadcastable_def in_slice_def row_lo_def row_hi_def
  col_lo_def col_hi_def slice_index_def contribution_def update_slice_def zeros_def full_def
  constant_patch_def covering_def contributions_def normalise_anomaly_map_def replace_zeros_def Let_def

lemma Max_insert_zero_negative:
  assumes "xs \<noteq> []" and "list_all (\<lambda>c. c < 0) xs"
  shows "Max (insert (0::real) (set xs)) = 0 \<and> Max (set xs) < 0"
proof -
  have fin: "finite (set xs)" and ne: "set xs \<noteq> {}" using assms(1) by simp_all
  have neg: "\<forall>c\<in>set xs. c < 0" using assms(2) by (simp add: list_all_iff)
  have lt: "Max (set xs) < 0" using neg fin ne by simp
  have "Max (insert 0 (set xs)) = max 0 (Max (set xs))"
    using Max_insert [OF fin ne] by simp
  with lt show ?thesis by simp
qed


lemma update_maps_min_first_touch:
  assumes "update_maps ''min'' acc p = Inr acc'" and "in_slice (fst acc) p i j"
  shows "entry (fst acc') i j =
           (if entry (snd acc') i j = 1 then contribution (fst acc) p i j
            else min (entry (fst acc) i j) (contribution (fst acc) p i j))"
  using assms by (auto simp: update_maps_def Let_def entry_update_slice split: if_splits)

section \<open>Agreement and checkpoints\<close>

lemma list_all_flatten:
  "list_all P (flatten t) \<longleftrightarrow> (\<forall>i<height t. \<forall>j<width t. P (entry t i j))"
  by (auto simp: flatten_def list_all_iff)

lemma map_filter_defined:
  "List.map_filter (\<lambda>x. x) vs = map the (filter (\<lambda>v. v \<noteq> None) vs)"
  by (induction vs) (auto simp: List.map_filter_def)

lemma save_load_model:
  assumes "st ''best_val_model_idx'' = Some bi" and "st ''best_val_model_measure'' = Some bm"
  shows "load_model b2 (snd (save_model b fs d n i st)) d n i =
           Inr (b2\<lparr>network := network b\<rparr>, bi, bm, fst (save_model b fs d n i st))"
  using assms by (simp add: load_model_def save_model_def)

section \<open>Facts about the loop over the patches\<close>

lemma finalised_indices_append [simp]:
  "finalised_indices (xs @ ys) = finalised_indices xs @ finalised_indices ys"
  by (induction xs rule: finalised_indices.induct) auto




lemma calculate_agreement_eq:
  "calculate_agreement_between_anomaly_score_and_labels cfg lib st a l =
     (if supported_measure cfg
      then Inr (st\<lparr>stats_dict := stats_dict st @ [get_aucroc lib l a],
                   trace := trace st @ [GetAucroc l a]\<rparr>)
      else Inl UnboundLocalError)"
  by (simp add: calculate_agreement_between_anomaly_score_and_labels_def supported_measure_def)

lemma finalise_previous_image_eq:
  assumes "maps st = Some acc" and "supported_measure cfg"
  shows "finalise_previous_image cfg lib ds st cur =
     (case (if save_anomaly_maps cfg
            then (case py_index (image_list ds) (cur - 1) of
                    Inl e \<Rightarrow> Inl e
                  | Inr name \<Rightarrow>
                      Inr [TorchSave (path_join (anomaly_map_dir ds) name)
                             (finished_map cfg lib acc (get_label_image ds (cur - 1)))])
            else Inr []) of
        Inl e \<Rightarrow> Inl e
      | Inr saved \<Rightarrow>
          Inr (st\<lparr>maps := Some (fst (apply_margins cfg
                                        (finished_map cfg lib acc (get_label_image ds (cur - 1)))
                                        (get_label_image ds (cur - 1))),
                                 if window_aggregation_method cfg = ''mean''
                                 then replace_zeros (snd acc) else snd acc),
                  stats_dict := stats_dict st @
                    [get_aucroc lib
                       (snd (apply_margins cfg
                               (finished_map cfg lib acc (get_label_image ds (cur - 1)))
                               (get_label_image ds (cur - 1))))
                       (fst (apply_margins cfg
                               (finished_map cfg lib acc (get_label_image ds (cur - 1)))
                               (get_label_image ds (cur - 1))))],
                  trace := trace st @ saved @
                    [GetAucroc
                       (snd (apply_margins cfg
                               (finished_map cfg lib acc (get_label_image ds (cur - 1)))
                               (get_label_image ds (cur - 1))))
                       (fst (apply_margins cfg
                               (finished_map cfg lib acc (get_label_image ds (cur - 1)))
                               (get_label_image ds (cur - 1)))),
                     SaveStatistics (which_set ds @ ''_summary.csv'')
                       (stats_dict st @
                          [get_aucroc lib
                             (snd (apply_margins cfg
                                     (finished_map cfg lib acc (get_label_image ds (cur - 1)))
                                     (get_label_image ds (cur - 1))))
                             (fst (apply_margins cfg
                                     (finished_map cfg lib acc (get_label_image ds (cur - 1)))
                                     (get_label_image ds (cur - 1))))])
                       (cur - 1) IfExists,
                     PbarUpdate]\<rparr>))"
  using assms
  by (auto simp: finalise_previous_image_def finished_map_def calculate_agreement_eq Let_def
           split: sum.splits)

lemma finalise_last_image_eq:
  assumes "maps st = Some acc" and "current_image_idx st = Some cur" and "supported_measure cfg"
  shows "finalise_last_image cfg lib ds st =
     (case (if save_anomaly_maps cfg
            then (case py_index (image_list ds) cur of
                    Inl e \<Rightarrow> Inl e
                  | Inr name \<Rightarrow>
                      Inr [TorchSave (path_join (anomaly_map_dir ds) name)
                             (finished_map cfg lib acc (get_label_image ds cur))])
            else Inr []) of
        Inl e \<Rightarrow> Inl e
      | Inr saved \<Rightarrow>
          Inr (st\<lparr>maps := Some (fst (apply_margins cfg
                                        (finished_map cfg lib acc (get_label_image ds cur))
                                        (get_label_image ds cur)),
                                 if window_aggregation_method cfg = ''mean''
                                 then replace_zeros (snd acc) else snd acc),
                  stats_dict := stats_dict st @
                    [get_aucroc lib
                       (snd (apply_margins cfg
                               (finished_map cfg lib acc (get_label_image ds cur))
                               (get_label_image ds cur)))
                       (fst (apply_margins cfg
                               (finished_map cfg lib acc (get_label_image ds cur))
                               (get_label_image ds cur)))],
                  trace := trace st @ saved @
                    [GetAucroc
                       (snd (apply_margins cfg
                               (finished_map cfg lib acc (get_label_image ds cur))
                               (get_label_image ds cur)))
                       (fst (apply_margins cfg
                               (finished_map cfg lib acc (get_label_image ds cur))
                               (get_label_image ds cur))),
                     PbarUpdate,
                     SaveStatistics (which_set ds @ ''_summary.csv'')
                       (stats_dict st @
                          [get_aucroc lib
                             (snd (apply_margins cfg
                                     (finished_map cfg lib acc (get_label_image ds cur))
                                     (get_label_image ds cur)))
                             (fst (apply_margins cfg
                                     (finished_map cfg lib acc (get_label_image ds cur))
                                     (get_label_image ds cur)))])
                       cur ContinueTrue]\<rparr>))"
  using assms
  by (auto simp: finalise_last_image_def finished_map_def calculate_agreement_eq Let_def
           split: sum.splits)











lemma saved_tensors_append [simp]:
  "saved_tensors (xs @ ys) = saved_tensors xs @ saved_tensors ys"
  by (induction xs rule: saved_tensors.induct) auto

lemma evaluated_maps_append [simp]:
  "evaluated_maps (xs @ ys) = evaluated_maps xs @ evaluated_maps ys"
  by (induction xs rule: evaluated_maps.induct) auto

lemma slice_index_margin:
  "0 \<le> m \<Longrightarrow> slice_index n (int n - m) - slice_index n m = n - 2 * nat m"
  by (auto simp: slice_index_def)

lemma apply_margins_shape:
  assumes "AD_margins cfg = Some (m0, m1)" and "0 \<le> m0" and "0 \<le> m1"
  shows "height (fst (apply_margins cfg a l)) = height a - 2 * nat m0 \<and>
         width (fst (apply_margins cfg a l)) = width a - 2 * nat m1"
  using assms by (simp add: apply_margins_def getitem_slice_def Let_def slice_index_margin)

lemma finalise_previous_image_result:
  assumes "maps st = Some acc"
    and "current_image_idx st = Some k"
    and "supported_measure cfg"
    and "save_anomaly_maps cfg \<longrightarrow> py_index (image_list ds) k = Inr name"
  shows "finalise_previous_image cfg lib ds st (k + 1) =
           Inr (st\<lparr>maps := Some (cropped_map cfg lib acc (get_label_image ds k),
                                 if window_aggregation_method cfg = ''mean''
                                 then replace_zeros (snd acc) else snd acc),
                  stats_dict := stats_dict st @
                    [get_aucroc lib (cropped_label cfg lib acc (get_label_image ds k))
                       (cropped_map cfg lib acc (get_label_image ds k))],
                  trace := trace st @
                    (if save_anomaly_maps cfg
                     then [TorchSave (path_join (anomaly_map_dir ds) name)
                             (finished_map cfg lib acc (get_label_image ds k))]
                     else []) @
                    [GetAucroc (cropped_label cfg lib acc (get_label_image ds k))
                       (cropped_map cfg lib acc (get_label_image ds k)),
                     SaveStatistics (which_set ds @ ''_summary.csv'')
                       (stats_dict st @
                          [get_aucroc lib (cropped_label cfg lib acc (get_label_image ds k))
                             (cropped_map cfg lib acc (get_label_image ds k))])
                       k IfExists,
                     PbarUpdate]\<rparr>)"
    using assms(4)
    unfolding finalise_previous_image_eq [OF assms(1,3)] cropped_map_def cropped_label_def
    by simp

lemma finalise_last_image_result:
  assumes "maps st = Some acc"
    and "current_image_idx st = Some k"
    and "supported_measure cfg"
    and "save_anomaly_maps cfg \<longrightarrow> py_index (image_list ds) k = Inr name"
  shows "finalise_last_image cfg lib ds st =
           Inr (st\<lparr>maps := Some (cropped_map cfg lib acc (get_label_image ds k),
                                 if window_aggregation_method cfg = ''mean''
                                 then replace_zeros (snd acc) else snd acc),
                  stats_dict := stats_dict st @
                    [get_aucroc lib (cropped_label cfg lib acc (get_label_image ds k))
                       (cropped_map cfg lib acc (get_label_image ds k))],
                  trace := trace st @
                    (if save_anomaly_maps cfg
                     then [TorchSave (path_join (anomaly_map_dir ds) name)
                             (finished_map cfg lib acc (get_label_image ds k))]
                     else []) @
                    [GetAucroc (cropped_label cfg lib acc (get_label_image ds k))
                       (cropped_map cfg lib acc (get_label_image ds k)),
                     PbarUpdate,
                     SaveStatistics (which_set ds @ ''_summary.csv'')
                       (stats_dict st @
                          [get_aucroc lib (cropped_label cfg lib acc (get_label_image ds k))
                             (cropped_map cfg lib acc (get_label_image ds k))])
                       k ContinueTrue]\<rparr>)"
    using assms(4)
    unfolding finalise_last_image_eq [OF assms(1,2,3)] cropped_map_def cropped_label_def
    by simp

lemma cropped_map_shape:
  shows "\<forall>m0 m1. AD_margins cfg = Some (m0, m1) \<and> 0 \<le> m0 \<and> 0 \<le> m1 \<longrightarrow>
            height (cropped_map cfg lib acc (get_label_image ds k))
              = height (finished_map cfg lib acc (get_label_image ds k)) - 2 * nat m0 \<and>
            width (cropped_map cfg lib acc (get_label_image ds k))
              = width (finished_map cfg lib acc (get_label_image ds k)) - 2 * nat m1"
    unfolding cropped_map_def using apply_margins_shape by blast





text \<open>
  The loop and \<open>accumulate\<close>: a new image starts from fresh zero maps of its size, and the
  patches that follow without a change of image are accumulated into them one by one.
\<close>

lemma start_next_image_maps:
  assumes "start_next_image cfg lib ds st cur = Inr st'"
  shows "\<exists>c h w. py_index (image_sizes ds) cur = Inr (c, h, w) \<and>
                 maps st' = Some (zeros h w, zeros h w)"
  using assms
  by (cases "py_index (image_sizes ds) cur")
     (auto simp: start_next_image_def split: sum.splits if_splits)

lemma process_patches_same_image:
  assumes "list_all (\<lambda>p. image_idx p = num_finished_images st) ps"
    and "maps st = Some acc"
  shows "process_patches cfg lib ds st ps =
           (case accumulate (window_aggregation_method cfg) acc ps of
              Inl e \<Rightarrow> Inl e
            | Inr acc' \<Rightarrow>
                Inr (st\<lparr>current_image_idx :=
                          (if ps = [] then current_image_idx st
                           else Some (num_finished_images st)),
                        maps := Some acc'\<rparr>))"
  using assms
proof (induction ps arbitrary: st acc)
  case Nil
  then show ?case by simp
next
  case (Cons p ps)
  have idx: "image_idx p = num_finished_images st"
    and tail: "list_all (\<lambda>p. image_idx p = num_finished_images st) ps"
    using Cons.prems(1) by simp_all
  show ?case
  proof (cases "update_maps (window_aggregation_method cfg) acc p")
    case (Inl e)
    then show ?thesis
      using idx Cons.prems(2) by (simp add: process_patch_def)
  next
    case (Inr acc1)
    let ?mid = "st\<lparr>current_image_idx := Some (image_idx p), maps := Some acc1\<rparr>"
    have step: "process_patch cfg lib ds st p = Inr ?mid"
      using idx Cons.prems(2) Inr by (simp add: process_patch_def)
    have tail': "list_all (\<lambda>p. image_idx p = num_finished_images ?mid) ps"
      using tail by simp
    have m: "maps ?mid = Some acc1" by simp
    show ?thesis
      using Cons.IH [OF tail' m] step Inr idx
      by (auto split: sum.splits)
  qed
qed

lemmas run_defs = process_patch_def start_next_image_def finalise_previous_image_def
  finalise_last_image_def calculate_anomaly_maps_def
  calculate_agreement_between_anomaly_score_and_labels_def apply_margins_def getitem_slice_def
  py_index_def path_join_def print_mean_results_def run_set_def run_experiment_def
  initial_state_def example_config_def example_library_def example_split_def example_label_def
  get_aucroc_def flatten_def of_rows_def nearest_resize_def constant_auc_def
  example_state_def example_maps_def median_config_def

lemma example_state_evaluated:
  "process_batches example_config example_library example_split initial_state
      (data_loader example_split) = Inr example_state \<and>
   maps example_state = Some example_maps \<and>
   current_image_idx example_state = Some 1"
  by (simp add: run_defs eval_defs)

section \<open>The order of the patch stream\<close>




section \<open>Aggregation methods\<close>

text \<open>
  The theorems of this section are about \<open>accumulate\<close> on fresh zero maps, which is what
  the loop does with the patches of one image (\<open>start_next_image_maps\<close>,
  \<open>process_patches_same_image\<close>), and about the pixels \<open>(i, j)\<close> of the finished map.
\<close>

text \<open>
  Claim C2.  With the method \<open>mean\<close>, after every patch of an image has been accumulated
  into fresh zero maps and the map has been normalised, each pixel that at least one patch
  covers holds the sum of the scores of exactly the covering patches divided by their
  number (so \<open>(a + b) / 2\<close> for two contributions \<open>a\<close> and \<open>b\<close>), and each pixel that no
  patch covers holds 0.  The coverage map counts the covering patches, and the divisor
  used by the normalisation is never zero.
\<close>

theorem mean_finalised_pixel:
  assumes "accumulate ''mean'' (zeros h w, zeros h w) ps = Inr acc"
  shows "aggregate ''mean'' h w ps = Inr (normalise_anomaly_map (fst acc) (snd acc)) \<and>
         entry (snd acc) i j = real (length (covering h w ps i j)) \<and>
         entry (replace_zeros (snd acc)) i j \<noteq> 0 \<and>
         entry (normalise_anomaly_map (fst acc) (snd acc)) i j =
           (if covering h w ps i j = [] then 0
            else sum_list (contributions h w ps i j) / real (length (covering h w ps i j))) \<and>
         (contributions h w ps i j = [a, b] \<longrightarrow>
            entry (normalise_anomaly_map (fst acc) (snd acc)) i j = (a + b) / 2)"
proof -
  have cov: "entry (snd acc) i j = real (length (covering h w ps i j))"
    by (rule accumulate_coverage [OF assms])
  have sum: "entry (fst acc) i j = sum_list (contributions h w ps i j)"
    by (rule accumulate_mean [OF assms])
  have len: "length (contributions h w ps i j) = length (covering h w ps i j)"
    by (simp add: contributions_def)
  have nz: "entry (replace_zeros (snd acc)) i j \<noteq> 0"
    by (simp add: replace_zeros_def)
  have px: "entry (normalise_anomaly_map (fst acc) (snd acc)) i j =
           (if covering h w ps i j = [] then 0
            else sum_list (contributions h w ps i j) / real (length (covering h w ps i j)))"
    using cov sum by (simp add: entry_normalise contributions_def)
  have two: "contributions h w ps i j = [a, b] \<longrightarrow>
            entry (normalise_anomaly_map (fst acc) (snd acc)) i j = (a + b) / 2"
  proof
    assume c: "contributions h w ps i j = [a, b]"
    with len have "length (covering h w ps i j) = 2" by simp
    then show "entry (normalise_anomaly_map (fst acc) (snd acc)) i j = (a + b) / 2"
      using px c by auto
  qed
  show ?thesis using aggregate_eq [OF assms] cov nz px two by simp
qed

theorem mean_finalised_pixel_witness:
  "accumulate ''mean'' (zeros 2 3, zeros 2 3)
          [constant_patch 0 0 2 0 2 1, constant_patch 0 0 2 1 3 2] =
        Inr (projr (accumulate ''mean'' (zeros 2 3, zeros 2 3)
          [constant_patch 0 0 2 0 2 1, constant_patch 0 0 2 1 3 2])) \<and>
   contributions 2 3 [constant_patch 0 0 2 0 2 1, constant_patch 0 0 2 1 3 2] 1 1 = [1, 2] \<and>
   entry (projr (aggregate ''mean'' 2 3
          [constant_patch 0 0 2 0 2 1, constant_patch 0 0 2 1 3 2])) 1 1 = (1 + 2) / 2"
proof -
  let ?ps = "[constant_patch 0 0 2 0 2 1, constant_patch 0 0 2 1 3 2]"
  let ?acc = "projr (accumulate ''mean'' (zeros 2 3, zeros 2 3) ?ps)"
  have h: "accumulate ''mean'' (zeros 2 3, zeros 2 3) ?ps = Inr ?acc"
    by (simp add: eval_defs)
  have c: "contributions 2 3 ?ps 1 1 = [1, 2]"
    by (simp add: eval_defs)
  note t = mean_finalised_pixel [OF h, of 1 1 1 2]
  from t have agg: "aggregate ''mean'' 2 3 ?ps = Inr (normalise_anomaly_map (fst ?acc) (snd ?acc))"
    by (rule conjunct1)
  from t c have "entry (normalise_anomaly_map (fst ?acc) (snd ?acc)) 1 1 = (1 + 2) / 2"
    by blast
  then have px: "entry (projr (aggregate ''mean'' 2 3 ?ps)) 1 1 = (1 + 2) / 2"
    by (simp only: agg sum.sel)
  show ?thesis by (intro conjI h c px)
qed

text \<open>
  Claim C3.  With the method \<open>min\<close>, each pixel of a finished image that at least one patch
  covers holds the minimum of the scores of exactly the covering patches; the coverage map
  counts every covering patch.  (Per patch, \<open>update_maps_min_first_touch\<close>: where the
  incremented coverage is 1 the patch score is assigned, elsewhere the minimum with the
  stored score.)  Three contributions 5, 2, 8 at a pixel give 2.
\<close>

theorem min_finalised_pixel:
  assumes "accumulate ''min'' (zeros h w, zeros h w) ps = Inr acc"
    and "covering h w ps i j \<noteq> []"
  shows "aggregate ''min'' h w ps = Inr (fst acc) \<and>
         entry (snd acc) i j = real (length (covering h w ps i j)) \<and>
         entry (fst acc) i j = Min (set (contributions h w ps i j)) \<and>
         (contributions h w ps i j = [5, 2, 8] \<longrightarrow> entry (fst acc) i j = 2)"
proof -
  have ne: "contributions h w ps i j \<noteq> []"
    using assms(2) by (simp add: contributions_def)
  have px: "entry (fst acc) i j = Min (set (contributions h w ps i j))"
    using accumulate_min [OF assms(1), of i j] ne by simp
  have ex: "contributions h w ps i j = [5, 2, 8] \<longrightarrow> entry (fst acc) i j = 2"
    using px by simp
  have agg: "aggregate ''min'' h w ps = Inr (fst acc)"
    using aggregate_eq [OF assms(1)] by simp
  show ?thesis by (intro conjI agg accumulate_coverage [OF assms(1)] px ex)
qed

theorem min_finalised_pixel_witness:
  "accumulate ''min'' (zeros 1 1, zeros 1 1)
      [constant_patch 0 0 1 0 1 5, constant_patch 0 0 1 0 1 2, constant_patch 0 0 1 0 1 8] =
    Inr (projr (accumulate ''min'' (zeros 1 1, zeros 1 1)
      [constant_patch 0 0 1 0 1 5, constant_patch 0 0 1 0 1 2, constant_patch 0 0 1 0 1 8])) \<and>
   covering 1 1
      [constant_patch 0 0 1 0 1 5, constant_patch 0 0 1 0 1 2, constant_patch 0 0 1 0 1 8] 0 0 \<noteq> [] \<and>
   contributions 1 1
      [constant_patch 0 0 1 0 1 5, constant_patch 0 0 1 0 1 2, constant_patch 0 0 1 0 1 8] 0 0
      = [5, 2, 8] \<and>
   entry (projr (aggregate ''min'' 1 1
      [constant_patch 0 0 1 0 1 5, constant_patch 0 0 1 0 1 2, constant_patch 0 0 1 0 1 8])) 0 0 = 2"
proof -
  let ?ps = "[constant_patch 0 0 1 0 1 5, constant_patch 0 0 1 0 1 2, constant_patch 0 0 1 0 1 8]"
  let ?acc = "projr (accumulate ''min'' (zeros 1 1, zeros 1 1) ?ps)"
  have h: "accumulate ''min'' (zeros 1 1, zeros 1 1) ?ps = Inr ?acc"
    by (simp add: eval_defs)
  have cov: "covering 1 1 ?ps 0 0 \<noteq> []"
    by (simp add: eval_defs)
  have c: "contributions 1 1 ?ps 0 0 = [5, 2, 8]"
    by (simp add: eval_defs)
  note t = min_finalised_pixel [OF h cov]
  from t have agg: "aggregate ''min'' 1 1 ?ps = Inr (fst ?acc)"
    by (rule conjunct1)
  from t c have "entry (fst ?acc) 0 0 = 2"
    by blast
  then have px: "entry (projr (aggregate ''min'' 1 1 ?ps)) 0 0 = 2"
    by (simp only: agg sum.sel)
  show ?thesis by (intro conjI h cov c px)
qed




text \<open>
  Claim C10.  The score map starts as all zeros, so with the method \<open>max\<close> every pixel
  finishes at the maximum of 0 and the scores contributed to it: a covered pixel all of
  whose contributions are negative finishes at 0, above the maximum of its contributions.
\<close>

theorem max_zero_initialised:
  assumes "accumulate ''max'' (zeros h w, zeros h w) ps = Inr acc"
  shows "aggregate ''max'' h w ps = Inr (fst acc) \<and>
         entry (fst acc) i j = Max (insert 0 (set (contributions h w ps i j))) \<and>
         (covering h w ps i j \<noteq> [] \<and> list_all (\<lambda>c. c < 0) (contributions h w ps i j) \<longrightarrow>
            entry (fst acc) i j = 0 \<and> Max (set (contributions h w ps i j)) < entry (fst acc) i j)"
proof -
  have px: "entry (fst acc) i j = Max (insert 0 (set (contributions h w ps i j)))"
    by (rule accumulate_max [OF assms])
  have neg: "covering h w ps i j \<noteq> [] \<and> list_all (\<lambda>c. c < 0) (contributions h w ps i j) \<longrightarrow>
            entry (fst acc) i j = 0 \<and> Max (set (contributions h w ps i j)) < entry (fst acc) i j"
  proof
    assume a: "covering h w ps i j \<noteq> [] \<and> list_all (\<lambda>c. c < 0) (contributions h w ps i j)"
    then have "contributions h w ps i j \<noteq> []" by (simp add: contributions_def)
    from Max_insert_zero_negative [OF this] a px
    show "entry (fst acc) i j = 0 \<and> Max (set (contributions h w ps i j)) < entry (fst acc) i j"
      by simp
  qed
  have agg: "aggregate ''max'' h w ps = Inr (fst acc)"
    using aggregate_eq [OF assms] by simp
  show ?thesis by (intro conjI agg px neg)
qed

theorem max_zero_initialised_witness:
  "accumulate ''max'' (zeros 1 1, zeros 1 1)
      [constant_patch 0 0 1 0 1 (- 3), constant_patch 0 0 1 0 1 (- 1)] =
    Inr (projr (accumulate ''max'' (zeros 1 1, zeros 1 1)
      [constant_patch 0 0 1 0 1 (- 3), constant_patch 0 0 1 0 1 (- 1)])) \<and>
   covering 1 1 [constant_patch 0 0 1 0 1 (- 3), constant_patch 0 0 1 0 1 (- 1)] 0 0 \<noteq> [] \<and>
   contributions 1 1 [constant_patch 0 0 1 0 1 (- 3), constant_patch 0 0 1 0 1 (- 1)] 0 0
     = [- 3, - 1] \<and>
   entry (projr (aggregate ''max'' 1 1
      [constant_patch 0 0 1 0 1 (- 3), constant_patch 0 0 1 0 1 (- 1)])) 0 0 = 0"
proof -
  let ?ps = "[constant_patch 0 0 1 0 1 (- 3), constant_patch 0 0 1 0 1 (- 1)]"
  let ?acc = "projr (accumulate ''max'' (zeros 1 1, zeros 1 1) ?ps)"
  have h: "accumulate ''max'' (zeros 1 1, zeros 1 1) ?ps = Inr ?acc"
    by (simp add: eval_defs)
  have cov: "covering 1 1 ?ps 0 0 \<noteq> []"
    by (simp add: eval_defs)
  have c: "contributions 1 1 ?ps 0 0 = [- 3, - 1]"
    by (simp add: eval_defs)
  have neg: "list_all (\<lambda>c. c < 0) (contributions 1 1 ?ps 0 0)"
    unfolding c by simp
  note t = max_zero_initialised [OF h, of 0 0]
  from t have agg: "aggregate ''max'' 1 1 ?ps = Inr (fst ?acc)"
    by (rule conjunct1)
  from t cov neg have "entry (fst ?acc) 0 0 = 0"
    by blast
  then have px: "entry (projr (aggregate ''max'' 1 1 ?ps)) 0 0 = 0"
    by (simp only: agg sum.sel)
  show ?thesis by (intro conjI h cov c px)
qed

section \<open>Agreement with the label image\<close>

text \<open>
  Claim C6.  For a label image with a single class (all pixels 0, or all pixels 1) the
  agreement is the undefined value (\<open>nan\<close>, here \<open>None\<close>); computing it raises nothing and
  appends the undefined value to the statistics.  The mean that is printed for a set is the
  sum of the defined values divided by their number: the values 0.9, undefined, 0.7 give
  0.8.  (Without any defined value the division raises \<open>ZeroDivisionError\<close> and no mean is
  printed.)
\<close>

theorem single_class_label_undefined:
  assumes "(\<forall>i<height label_image. \<forall>j<width label_image. entry label_image i j = 0) \<or>
           (\<forall>i<height label_image. \<forall>j<width label_image. entry label_image i j = 1)"
    and "measure_of_anomaly cfg = ''absolute distance'' \<or> measure_of_anomaly cfg = ''likelihood''"
  shows "get_aucroc lib label_image anomaly_map = None \<and>
         calculate_agreement_between_anomaly_score_and_labels cfg lib st anomaly_map label_image =
           Inr (st\<lparr>stats_dict := stats_dict st @ [None],
                   trace := trace st @ [GetAucroc label_image anomaly_map]\<rparr>) \<and>
         print_mean_results s =
           (if filter (\<lambda>v. v \<noteq> None) (stats_dict s) = [] then Inl ZeroDivisionError
            else Inr (s\<lparr>trace := trace s @
                   [PrintMean ''aucroc''
                      (sum_list (map the (filter (\<lambda>v. v \<noteq> None) (stats_dict s)))
                       / real (length (filter (\<lambda>v. v \<noteq> None) (stats_dict s))))]\<rparr>)) \<and>
         (stats_dict s = [Some (9 / 10), None, Some (7 / 10)] \<longrightarrow>
            print_mean_results s = Inr (s\<lparr>trace := trace s @ [PrintMean ''aucroc'' (8 / 10)]\<rparr>))"
proof -
  have undefined: "get_aucroc lib label_image anomaly_map = None"
    using assms(1) by (auto simp: get_aucroc_def list_all_flatten)
  have agreement:
    "calculate_agreement_between_anomaly_score_and_labels cfg lib st anomaly_map label_image =
       Inr (st\<lparr>stats_dict := stats_dict st @ [None],
               trace := trace st @ [GetAucroc label_image anomaly_map]\<rparr>)"
    using assms(2) undefined
    by (auto simp: calculate_agreement_between_anomaly_score_and_labels_def)
  have mean: "print_mean_results s =
           (if filter (\<lambda>v. v \<noteq> None) (stats_dict s) = [] then Inl ZeroDivisionError
            else Inr (s\<lparr>trace := trace s @
                   [PrintMean ''aucroc''
                      (sum_list (map the (filter (\<lambda>v. v \<noteq> None) (stats_dict s)))
                       / real (length (filter (\<lambda>v. v \<noteq> None) (stats_dict s))))]\<rparr>))"
    by (simp add: print_mean_results_def map_filter_defined Let_def)
  have example: "stats_dict s = [Some (9 / 10), None, Some (7 / 10)] \<longrightarrow>
            print_mean_results s = Inr (s\<lparr>trace := trace s @ [PrintMean ''aucroc'' (8 / 10)]\<rparr>)"
    by (simp add: print_mean_results_def map_filter_simps)
  show ?thesis by (intro conjI undefined agreement mean example)
qed

theorem single_class_label_undefined_witness:
  "get_aucroc example_library (zeros 2 2) (full 2 2 3) = None \<and>
   calculate_agreement_between_anomaly_score_and_labels example_config example_library
       initial_state (full 2 2 3) (zeros 2 2) =
     Inr (initial_state\<lparr>stats_dict := [None], trace := [GetAucroc (zeros 2 2) (full 2 2 3)]\<rparr>) \<and>
   print_mean_results (initial_state\<lparr>stats_dict := [Some (9 / 10), None, Some (7 / 10)]\<rparr>) =
     Inr (initial_state\<lparr>stats_dict := [Some (9 / 10), None, Some (7 / 10)],
            trace := [PrintMean ''aucroc'' (8 / 10)]\<rparr>)"
proof -
  have single: "(\<forall>i<height (zeros 2 2). \<forall>j<width (zeros 2 2). entry (zeros 2 2) i j = 0) \<or>
           (\<forall>i<height (zeros 2 2). \<forall>j<width (zeros 2 2). entry (zeros 2 2) i j = 1)"
    by (simp add: zeros_def full_def)
  have supported: "measure_of_anomaly example_config = ''absolute distance'' \<or>
       measure_of_anomaly example_config = ''likelihood''"
    by (simp add: example_config_def)
  have stats: "stats_dict (initial_state\<lparr>stats_dict := [Some (9 / 10), None, Some (7 / 10)]\<rparr>) =
      [Some (9 / 10), None, Some (7 / 10)]"
    by simp
  note t = single_class_label_undefined [OF single supported,
      of example_library "full 2 2 3" initial_state
         "initial_state\<lparr>stats_dict := [Some (9 / 10), None, Some (7 / 10)]\<rparr>"]
  from t have a: "get_aucroc example_library (zeros 2 2) (full 2 2 3) = None"
    by (rule conjunct1)
  from t have b: "calculate_agreement_between_anomaly_score_and_labels example_config example_library
       initial_state (full 2 2 3) (zeros 2 2) =
     Inr (initial_state\<lparr>stats_dict := [None], trace := [GetAucroc (zeros 2 2) (full 2 2 3)]\<rparr>)"
    by (simp add: initial_state_def)
  from t stats have c0: "print_mean_results (initial_state\<lparr>stats_dict := [Some (9 / 10), None, Some (7 / 10)]\<rparr>) =
     Inr (initial_state\<lparr>stats_dict := [Some (9 / 10), None, Some (7 / 10)]\<rparr>
           \<lparr>trace := trace (initial_state\<lparr>stats_dict := [Some (9 / 10), None, Some (7 / 10)]\<rparr>)
              @ [PrintMean ''aucroc'' (8 / 10)]\<rparr>)"
    by blast
  have c: "print_mean_results (initial_state\<lparr>stats_dict := [Some (9 / 10), None, Some (7 / 10)]\<rparr>) =
     Inr (initial_state\<lparr>stats_dict := [Some (9 / 10), None, Some (7 / 10)],
            trace := [PrintMean ''aucroc'' (8 / 10)]\<rparr>)"
    unfolding c0 by (simp add: initial_state_def)
  show ?thesis by (intro conjI a b c)
qed

section \<open>Saving and loading a checkpoint\<close>

text \<open>
  Claim C9.  A checkpoint that the end of an epoch saves, loaded again under the epoch
  index or under \<open>latest\<close>, gives back the best-epoch index and the best-epoch measure of
  the saving experiment and a dictionary with the saved epoch index, and loads exactly the
  saved parameter values into the module.
\<close>

theorem checkpoint_round_trip:
  assumes "best_val_model_measure b = Some bm"
  shows "\<not> isl (save_epoch b fs epoch_idx) \<and>
         load_model b2 (snd (projr (save_epoch b fs epoch_idx)))
             (experiment_saved_models b) ''train_model'' (Epoch epoch_idx) =
           Inr (b2\<lparr>network := network b\<rparr>, best_val_model_idx b, bm,
                state (fst (projr (save_epoch b fs epoch_idx)))) \<and>
         load_model b2 (snd (projr (save_epoch b fs epoch_idx)))
             (experiment_saved_models b) ''train_model'' Latest =
           Inr (b2\<lparr>network := network b\<rparr>, best_val_model_idx b, bm,
                state (fst (projr (save_epoch b fs epoch_idx)))) \<and>
         state (fst (projr (save_epoch b fs epoch_idx))) ''current_epoch_idx'' = Some (IntV epoch_idx) \<and>
         state (fst (projr (save_epoch b fs epoch_idx))) ''best_val_model_idx''
           = Some (best_val_model_idx b) \<and>
         state (fst (projr (save_epoch b fs epoch_idx))) ''best_val_model_measure'' = Some bm \<and>
         state (fst (projr (save_epoch b fs epoch_idx))) ''network'' = Some (StateDictV (network b))"
  using assms by (simp add: save_epoch_def save_model_def load_model_def Let_def)

theorem checkpoint_round_trip_witness:
  "best_val_model_measure example_builder = Some (FloatV (42 / 100)) \<and>
   load_model (fresh_builder 0 example_args) (snd (projr (save_epoch example_builder Map.empty 3)))
       (experiment_saved_models example_builder) ''train_model'' (Epoch 3) =
     Inr ((fresh_builder 0 example_args)\<lparr>network := 7\<rparr>, IntV 2, FloatV (42 / 100),
          state (fst (projr (save_epoch example_builder Map.empty 3)))) \<and>
   state (fst (projr (save_epoch example_builder Map.empty 3))) ''current_epoch_idx'' = Some (IntV 3)"
proof -
  have h: "best_val_model_measure example_builder = Some (FloatV (42 / 100))"
    by (simp add: example_builder_def)
  have n: "network example_builder = 7" "best_val_model_idx example_builder = IntV 2"
    by (simp_all add: example_builder_def fresh_builder_def)
  note t = checkpoint_round_trip [OF h, of Map.empty 3 "fresh_builder 0 example_args"]
  from t n have a: "load_model (fresh_builder 0 example_args) (snd (projr (save_epoch example_builder Map.empty 3)))
       (experiment_saved_models example_builder) ''train_model'' (Epoch 3) =
     Inr ((fresh_builder 0 example_args)\<lparr>network := 7\<rparr>, IntV 2, FloatV (42 / 100),
          state (fst (projr (save_epoch example_builder Map.empty 3))))"
    by simp
  from t have b: "state (fst (projr (save_epoch example_builder Map.empty 3))) ''current_epoch_idx'' = Some (IntV 3)"
    by simp
  show ?thesis by (intro conjI h a b)
qed

section \<open>Finishing an image\<close>

text \<open>
  Claim C5, as stated, fails: with a margin of one pixel and saving enabled, the maps saved
  for the two images of the example have height 4, the size of the full image, while the
  maps handed to the agreement have height 2.  The map is saved before the margin is
  cropped.
\<close>

theorem persisted_map_counterexample:
  "save_anomaly_maps example_config \<and>
   AD_margins example_config = Some (1, 1) \<and>
   \<not> isl (run_set example_config example_library initial_state example_split) \<and>
   map height (saved_tensors (trace (projr
      (run_set example_config example_library initial_state example_split)))) = [4, 4] \<and>
   map height (evaluated_maps (trace (projr
      (run_set example_config example_library initial_state example_split)))) = [2, 2]"
  by (simp add: run_defs eval_defs map_filter_simps)

text \<open>
  Claim C5, amended.  Both finalisation blocks (the one at an image boundary, for the image
  \<open>k\<close> before the current one, and the one after the loop) take the steps in this order:
  normalisation if the method is \<open>mean\<close>, resize to the size of the label image if
  configured (\<open>finished_map\<close>), saving of that uncropped map under the name of the source
  image if enabled, margin crop of the map and of the label image by one slice if a margin
  is configured (\<open>cropped_map\<close>, \<open>cropped_label\<close>), and the agreement of the cropped pair,
  whose value is appended to the statistics.  A margin \<open>(m0, m1)\<close> takes \<open>m0\<close> rows and
  \<open>m1\<close> columns from each side.
\<close>

theorem finalisation_order:
  assumes "maps st = Some acc"
    and "current_image_idx st = Some k"
    and "supported_measure cfg"
    and "save_anomaly_maps cfg \<longrightarrow> py_index (image_list ds) k = Inr name"
  shows "finalise_previous_image cfg lib ds st (k + 1) =
           Inr (st\<lparr>maps := Some (cropped_map cfg lib acc (get_label_image ds k),
                                 if window_aggregation_method cfg = ''mean''
                                 then replace_zeros (snd acc) else snd acc),
                  stats_dict := stats_dict st @
                    [get_aucroc lib (cropped_label cfg lib acc (get_label_image ds k))
                       (cropped_map cfg lib acc (get_label_image ds k))],
                  trace := trace st @
                    (if save_anomaly_maps cfg
                     then [TorchSave (path_join (anomaly_map_dir ds) name)
                             (finished_map cfg lib acc (get_label_image ds k))]
                     else []) @
                    [GetAucroc (cropped_label cfg lib acc (get_label_image ds k))
                       (cropped_map cfg lib acc (get_label_image ds k)),
                     SaveStatistics (which_set ds @ ''_summary.csv'')
                       (stats_dict st @
                          [get_aucroc lib (cropped_label cfg lib acc (get_label_image ds k))
                             (cropped_map cfg lib acc (get_label_image ds k))])
                       k IfExists,
                     PbarUpdate]\<rparr>) \<and>
         finalise_last_image cfg lib ds st =
           Inr (st\<lparr>maps := Some (cropped_map cfg lib acc (get_label_image ds k),
                                 if window_aggregation_method cfg = ''mean''
                                 then replace_zeros (snd acc) else snd acc),
                  stats_dict := stats_dict st @
                    [get_aucroc lib (cropped_label cfg lib acc (get_label_image ds k))
                       (cropped_map cfg lib acc (get_label_image ds k))],
                  trace := trace st @
                    (if save_anomaly_maps cfg
                     then [TorchSave (path_join (anomaly_map_dir ds) name)
                             (finished_map cfg lib acc (get_label_image ds k))]
                     else []) @
                    [GetAucroc (cropped_label cfg lib acc (get_label_image ds k))
                       (cropped_map cfg lib acc (get_label_image ds k)),
                     PbarUpdate,
                     SaveStatistics (which_set ds @ ''_summary.csv'')
                       (stats_dict st @
                          [get_aucroc lib (cropped_label cfg lib acc (get_label_image ds k))
                             (cropped_map cfg lib acc (get_label_image ds k))])
                       k ContinueTrue]\<rparr>) \<and>
         (\<forall>m0 m1. AD_margins cfg = Some (m0, m1) \<and> 0 \<le> m0 \<and> 0 \<le> m1 \<longrightarrow>
            height (cropped_map cfg lib acc (get_label_image ds k))
              = height (finished_map cfg lib acc (get_label_image ds k)) - 2 * nat m0 \<and>
            width (cropped_map cfg lib acc (get_label_image ds k))
              = width (finished_map cfg lib acc (get_label_image ds k)) - 2 * nat m1)"
  by (intro conjI finalise_previous_image_result [OF assms] finalise_last_image_result [OF assms]
      cropped_map_shape)

theorem finalisation_order_witness:
  "maps example_state = Some example_maps \<and>
   current_image_idx example_state = Some 1 \<and>
   supported_measure example_config \<and>
   save_anomaly_maps example_config \<and>
   py_index (image_list example_split) 1 = Inr ''b.png'' \<and>
   AD_margins example_config = Some (1, 1) \<and>
   saved_tensors (trace (projr
       (finalise_last_image example_config example_library example_split example_state))) =
     saved_tensors (trace example_state) @
       [finished_map example_config example_library example_maps (example_label 1)] \<and>
   evaluated_maps (trace (projr
       (finalise_last_image example_config example_library example_split example_state))) =
     evaluated_maps (trace example_state) @
       [cropped_map example_config example_library example_maps (example_label 1)] \<and>
   height (cropped_map example_config example_library example_maps (example_label 1)) =
     height (finished_map example_config example_library example_maps (example_label 1)) - 2"
proof -
  have a: "maps example_state = Some example_maps"
    and b: "current_image_idx example_state = Some 1"
    using example_state_evaluated by simp_all
  have c: "supported_measure example_config"
    by (simp add: supported_measure_def example_config_def)
  have name: "py_index (image_list example_split) 1 = Inr ''b.png''"
    by (simp add: py_index_def example_split_def)
  then have d: "save_anomaly_maps example_config \<longrightarrow>
             py_index (image_list example_split) 1 = Inr ''b.png''"
    by simp
  have e: "AD_margins example_config = Some (1, 1)"
    and s: "save_anomaly_maps example_config"
    by (simp_all add: example_config_def)
  have l: "get_label_image example_split 1 = example_label 1"
    by (simp add: example_split_def)
  note t = finalisation_order [OF a b c d, of example_library, unfolded l]
  from t have last: "finalise_last_image example_config example_library example_split example_state =
           Inr (example_state\<lparr>maps := Some (cropped_map example_config example_library example_maps (example_label 1),
                                 if window_aggregation_method example_config = ''mean''
                                 then replace_zeros (snd example_maps) else snd example_maps),
                  stats_dict := stats_dict example_state @
                    [get_aucroc example_library (cropped_label example_config example_library example_maps (example_label 1))
                       (cropped_map example_config example_library example_maps (example_label 1))],
                  trace := trace example_state @
                    (if save_anomaly_maps example_config
                     then [TorchSave (path_join (anomaly_map_dir example_split) ''b.png'')
                             (finished_map example_config example_library example_maps (example_label 1))]
                     else []) @
                    [GetAucroc (cropped_label example_config example_library example_maps (example_label 1))
                       (cropped_map example_config example_library example_maps (example_label 1)),
                     PbarUpdate,
                     SaveStatistics (which_set example_split @ ''_summary.csv'')
                       (stats_dict example_state @
                          [get_aucroc example_library (cropped_label example_config example_library example_maps (example_label 1))
                             (cropped_map example_config example_library example_maps (example_label 1))])
                       1 ContinueTrue]\<rparr>)"
    by blast
  have f: "saved_tensors (trace (projr
       (finalise_last_image example_config example_library example_split example_state))) =
     saved_tensors (trace example_state) @
       [finished_map example_config example_library example_maps (example_label 1)]"
    unfolding last using s by simp
  have g: "evaluated_maps (trace (projr
       (finalise_last_image example_config example_library example_split example_state))) =
     evaluated_maps (trace example_state) @
       [cropped_map example_config example_library example_maps (example_label 1)]"
    unfolding last using s by simp
  have h: "height (cropped_map example_config example_library example_maps (example_label 1)) =
     height (finished_map example_config example_library example_maps (example_label 1)) - 2 * nat 1"
    using t [THEN conjunct2, THEN conjunct2] e by auto
  from h have h': "height (cropped_map example_config example_library example_maps (example_label 1)) =
     height (finished_map example_config example_library example_maps (example_label 1)) - 2"
    by simp
  show ?thesis by (intro conjI a b c s name e f g h')
qed



section \<open>Unsupported configurations\<close>




end
